theory Spec2Isabelle
  imports Main "HOL-Library.Sublist" "HOL-Library.Multiset" "HOL-Library.Char_ord"
    "HOL-Library.List_Lexorder"
begin

section \<open>Python values shared by the three scripts\<close>

text \<open>
  The repository holds three independent command-line scripts:
  \<^verbatim>\<open>tools/version/gen_version.py\<close> (Version Stamper),
  \<^verbatim>\<open>test/sandbox/Benchmarks/Kernel/Divergence/euler/submit.py\<close> (Job Submitter) and
  \<^verbatim>\<open>test/sandbox/Benchmarks/Kernel/Divergence/post.py\<close> (Benchmark Aggregator).

  A Python \<open>str\<close> is a \<^typ>\<open>string\<close>: a list of characters with code points below 256.
  The file system is a map from the path a script passes to \<open>open\<close> to the text that
  \<open>read()\<close> returns there. An uncaught exception is a value of \<open>error\<close>; a result that
  may raise has type \<open>error + 'a\<close>.
\<close>

datatype error =
    FileNotFoundError string
  | ValueError
  | TypeError
  | UnsupportedOperation
  | JSONDecodeError
  | OSError
  | LibraryError

type_synonym fs = "string \<rightharpoonup> string"

text \<open>\<open>os.path.isfile(p)\<close>.\<close>

definition isfile :: "fs \<Rightarrow> string \<Rightarrow> bool" where
  "isfile files p = (files p \<noteq> None)"

text \<open>\<open>with open(p, 'r') as f: f.read()\<close>.\<close>

definition read_file :: "fs \<Rightarrow> string \<Rightarrow> error + string" where
  "read_file files p = (case files p of None \<Rightarrow> Inl (FileNotFoundError p) | Some c \<Rightarrow> Inr c)"

text \<open>
  The characters that \<open>str.strip()\<close>, \<open>str.split()\<close> and \<open>int()\<close> treat as white space,
  among the code points below 256: tab, line feed, vertical tab, form feed, carriage
  return, the four separators 28 to 31, the blank, 133 and 160.
\<close>

definition is_space :: "char \<Rightarrow> bool" where
  "is_space c = ((of_char c :: nat) \<in> {9, 10, 11, 12, 13, 28, 29, 30, 31, 32, 133, 160})"

text \<open>\<open>s.strip()\<close>.\<close>

definition strip :: "string \<Rightarrow> string" where
  "strip s = dropWhile is_space (rev (dropWhile is_space (rev s)))"

text \<open>
  \<open>s.split()\<close>: the maximal runs of characters that are not white space, in order.
  \<open>cur\<close> is the token being read.
\<close>

fun split_ws_from :: "string \<Rightarrow> string \<Rightarrow> string list" where
  "split_ws_from cur [] = (if cur = [] then [] else [cur])"
| "split_ws_from cur (c # cs) =
     (if is_space c then (if cur = [] then split_ws_from [] cs else cur # split_ws_from [] cs)
      else split_ws_from (cur @ [c]) cs)"

definition split_ws :: "string \<Rightarrow> string list" where
  "split_ws s = split_ws_from [] s"

text \<open>
  \<open>s.split(sep)\<close> for a separator of one character: every occurrence separates, and
  empty components are kept, so the result is never empty.
\<close>

fun split_on_from :: "char \<Rightarrow> string \<Rightarrow> string \<Rightarrow> string list" where
  "split_on_from sep cur [] = [cur]"
| "split_on_from sep cur (c # cs) =
     (if c = sep then cur # split_on_from sep [] cs else split_on_from sep (cur @ [c]) cs)"

definition split_on :: "char \<Rightarrow> string \<Rightarrow> string list" where
  "split_on sep s = split_on_from sep [] s"

text \<open>
  \<open>s.replace(old, new)\<close>: the occurrences of \<open>old\<close> are found from left to right without
  overlap, and the text put in is not searched again. With an empty \<open>old\<close>, \<open>new\<close> goes
  before every character and at the end.
\<close>

function py_replace :: "string \<Rightarrow> string \<Rightarrow> string \<Rightarrow> string" where
  "py_replace old new [] = (if old = [] then new else [])"
| "py_replace old new (c # cs) =
     (if old = [] then new @ c # py_replace old new cs
      else if prefix old (c # cs) then new @ py_replace old new (drop (length old) (c # cs))
      else c # py_replace old new cs)"
  by pat_completeness auto
termination
  by (relation "measure (\<lambda>(old, new, s). length s)") auto

text \<open>
  \<open>os.path.join(a, *p)\<close> of \<open>posixpath\<close>: a component that starts with a slash discards
  what came before it; otherwise it is appended, after a slash unless the path so far is
  empty or ends with one.
\<close>

fun path_join :: "string \<Rightarrow> string list \<Rightarrow> string" where
  "path_join path [] = path"
| "path_join path (b # bs) =
     (if b \<noteq> [] \<and> hd b = CHR ''/'' then path_join b bs
      else if path = [] \<or> last path = CHR ''/'' then path_join (path @ b) bs
      else path_join (path @ ''/'' @ b) bs)"

section \<open>Version Stamper: gen_version.py\<close>

text \<open>
  The parsed command line, \<open>args.input\<close>, \<open>args.output\<close> and \<open>args.project_root\<close>
  (the last is \<open>.\<close> when the option is not given).
\<close>

record args =
  args_input :: string
  args_output :: string
  args_project_root :: string

text \<open>
  The variables \<open>HEAD\<close> and \<open>SHA1\<close> hold a \<open>str\<close> at some places of \<open>main\<close> and the list
  returned by \<open>split()\<close> at others.
\<close>

datatype pyval = PStr string | PList "string list"

text \<open>
  Lines 25 to 28: the stripped content of \<open><project_root>/VERSION\<close> and the unpacking
  \<open>major, minor, patch = version.split('.')\<close>, which raises \<open>ValueError\<close> unless the list
  has three elements.
\<close>

definition read_version :: "args \<Rightarrow> fs \<Rightarrow> error + (string \<times> string \<times> string \<times> string)" where
  "read_version a files =
     (case read_file files (path_join (args_project_root a) [''VERSION'']) of
        Inl e \<Rightarrow> Inl e
      | Inr c \<Rightarrow>
          (let version = strip c in
           case split_on CHR ''.'' version of
             [major, minor, patch] \<Rightarrow> Inr (version, major, minor, patch)
           | _ \<Rightarrow> Inl ValueError))"

text \<open>
  Lines 30 to 43: the values of \<open>HEAD\<close> and \<open>SHA1\<close> after the look at \<open>.git/HEAD\<close>.
  In the branch of line 42 both variables keep the list that \<open>split()\<close> returned.
\<close>

definition resolve_head :: "args \<Rightarrow> fs \<Rightarrow> error + (pyval \<times> pyval)" where
  "resolve_head a files =
     (let fHEAD = path_join (args_project_root a) [''.git'', ''HEAD''] in
      if isfile files fHEAD then
        (case read_file files fHEAD of
           Inl e \<Rightarrow> Inl e
         | Inr c \<Rightarrow>
             (let HEAD = split_ws (strip c) in
              if length HEAD > 1 then
                (let HEAD1 = HEAD ! 1;
                     fSHA1 = path_join (args_project_root a) [''.git'', HEAD1] in
                 case read_file files fSHA1 of
                   Inl e \<Rightarrow> Inl e
                 | Inr s \<Rightarrow> Inr (PStr HEAD1, PStr (strip s)))
              else Inr (PList HEAD, PList HEAD)))
      else Inr (PStr [], PStr []))"

text \<open>
  \<open>template.replace(old, new)\<close> with \<open>new\<close> a variable of \<open>main\<close>: a list there raises
  \<open>TypeError\<close>.
\<close>

definition str_replace :: "string \<Rightarrow> string \<Rightarrow> pyval \<Rightarrow> error + string" where
  "str_replace s old new =
     (case new of PStr n \<Rightarrow> Inr (py_replace old n s) | PList _ \<Rightarrow> Inl TypeError)"

text \<open>
  Lines 51 and 52: \<open>with open(args.output, 'r') as out: out.write(...)\<close>. The file is
  opened for reading, so a missing file raises \<open>FileNotFoundError\<close> and the write to an
  existing one raises \<open>io.UnsupportedOperation\<close>; the file system stays as it is.
\<close>

definition write_output :: "fs \<Rightarrow> string \<Rightarrow> string \<Rightarrow> fs \<times> (error + unit)" where
  "write_output files p content =
     (case files p of
        None \<Rightarrow> (files, Inl (FileNotFoundError p))
      | Some _ \<Rightarrow> (files, Inl UnsupportedOperation))"

text \<open>
  \<open>main(args)\<close>. The three calls of \<open>replace\<close> on lines 48 to 50 are expression
  statements: each builds a new string that is dropped, and \<open>version_template\<close> is still
  the text read from the template when line 52 passes it to \<open>write\<close>.
\<close>

definition gen_version_main :: "args \<Rightarrow> fs \<Rightarrow> fs \<times> (error + unit)" where
  "gen_version_main a files =
     (case read_version a files of
        Inl e \<Rightarrow> (files, Inl e)
      | Inr (version, major, minor, patch) \<Rightarrow>
     (case resolve_head a files of
        Inl e \<Rightarrow> (files, Inl e)
      | Inr (HEAD, SHA1) \<Rightarrow>
     (case read_file files (args_input a) of
        Inl e \<Rightarrow> (files, Inl e)
      | Inr version_template \<Rightarrow>
     (case str_replace version_template ''@VERSION@'' (PStr version) of
        Inl e \<Rightarrow> (files, Inl e)
      | Inr _ \<Rightarrow>
     (case str_replace version_template ''@HEAD@'' HEAD of
        Inl e \<Rightarrow> (files, Inl e)
      | Inr _ \<Rightarrow>
     (case str_replace version_template ''@SHA1@'' SHA1 of
        Inl e \<Rightarrow> (files, Inl e)
      | Inr _ \<Rightarrow> write_output files (args_output a) version_template))))))"

text \<open>
  What the specification asks of the Version Stamper, in its words: the template with
  \<open>@VERSION@\<close> replaced by the version string, \<open>@HEAD@\<close> by the head reference and
  \<open>@SHA1@\<close> by the commit hash, each placeholder looked for in the template only.
\<close>

fun stamp_spec :: "string \<Rightarrow> string \<Rightarrow> string \<Rightarrow> string \<Rightarrow> string" where
  "stamp_spec version hd_ref sha [] = []"
| "stamp_spec version hd_ref sha (c # cs) =
     (if prefix ''@VERSION@'' (c # cs) then version @ stamp_spec version hd_ref sha (drop 8 cs)
      else if prefix ''@HEAD@'' (c # cs) then hd_ref @ stamp_spec version hd_ref sha (drop 5 cs)
      else if prefix ''@SHA1@'' (c # cs) then sha @ stamp_spec version hd_ref sha (drop 5 cs)
      else c # stamp_spec version hd_ref sha cs)"

section \<open>Job Submitter: submit.py\<close>

type_synonym env = "string \<rightharpoonup> string"

text \<open>
  What one run sees of the outside: the parsed \<open>--cwd\<close>, the process environment and the
  files at the start, the two renderings of \<open>now\<close>, and the two child processes.
  \<open>source_common\<close> is line 26 and 27 together: the environment that
  \<open>bash -c 'source ./common.sh && python -c ...'\<close> prints, read back by \<open>json.loads\<close>, for
  the environment the child inherits; it raises when the pipe cannot be started or its
  output is not JSON. \<open>popen_wait\<close> is \<open>subprocess.Popen(cmd, shell=True, env=e).wait()\<close>:
  the return code of the shell, or the error of a shell that could not be started.
\<close>

record world =
  arg_cwd :: string
  os_environ :: env
  os_files :: fs
  now_date :: string
  now_time :: string
  source_common :: "env \<Rightarrow> error + env"
  popen_wait :: "string \<Rightarrow> env \<Rightarrow> error + int"

text \<open>
  The effects of the script in the order it makes them: a file opened with mode \<open>w\<close> and
  written, the scheduler command started with \<open>Popen\<close> on line 61 or 64, and the return
  of \<open>wait()\<close> with the return code of that child. The pipe of line 26 is never waited
  for and is part of \<open>source_common\<close>. What the children do to the files is theirs, not
  the script's, and is not part of \<open>filesys\<close>.
\<close>

datatype event = WriteFile string string | Spawn string | Exited int

record state =
  environ :: env
  filesys :: fs
  trace :: "event list"

text \<open>\<open>with open(p, 'w') as f: f.write(content)\<close>.\<close>

definition write_file :: "string \<Rightarrow> string \<Rightarrow> state \<Rightarrow> state" where
  "write_file p content s =
     s\<lparr>filesys := (filesys s)(p \<mapsto> content), trace := trace s @ [WriteFile p content]\<rparr>"

text \<open>\<open>f.readline()\<close> on a file just opened: the first line with its line feed, if it has one.\<close>

definition readline :: "string \<Rightarrow> string" where
  "readline s = takeWhile (\<lambda>c. c \<noteq> CHR 0x0A) s @ take 1 (dropWhile (\<lambda>c. c \<noteq> CHR 0x0A) s)"

text \<open>
  \<open>int(s)\<close> for a \<open>str\<close>: white space around is dropped, then an optional sign and decimal
  digits, where one underscore may stand between two digits; anything else raises
  \<open>ValueError\<close>.
\<close>

definition is_digit :: "char \<Rightarrow> bool" where
  "is_digit c = (48 \<le> (of_char c :: nat) \<and> (of_char c :: nat) \<le> 57)"

definition digit_val :: "char \<Rightarrow> nat" where
  "digit_val c = of_char c - 48"

fun parse_digits :: "nat \<Rightarrow> string \<Rightarrow> nat option" where
  "parse_digits acc [] = Some acc"
| "parse_digits acc [c] = (if is_digit c then Some (acc * 10 + digit_val c) else None)"
| "parse_digits acc (c # d # ds) =
     (if is_digit c then parse_digits (acc * 10 + digit_val c) (d # ds)
      else if c = CHR ''_'' \<and> is_digit d then parse_digits (acc * 10 + digit_val d) ds
      else None)"

definition parse_unsigned :: "string \<Rightarrow> nat option" where
  "parse_unsigned s =
     (case s of [] \<Rightarrow> None
      | c # cs \<Rightarrow> if is_digit c then parse_digits (digit_val c) cs else None)"

definition py_int :: "string \<Rightarrow> error + int" where
  "py_int s =
     (let t = strip s;
          r = (case t of
                 [] \<Rightarrow> None
               | c # cs \<Rightarrow>
                   if c = CHR ''-'' then map_option (\<lambda>n. - int n) (parse_unsigned cs)
                   else if c = CHR ''+'' then map_option int (parse_unsigned cs)
                   else map_option int (parse_unsigned t))
      in case r of None \<Rightarrow> Inl ValueError | Some n \<Rightarrow> Inr n)"

text \<open>The decimal digits of a natural number, as \<open>%d\<close> prints them.\<close>

definition digit_char :: "nat \<Rightarrow> char" where
  "digit_char d = ''0123456789'' ! d"

fun digits :: "nat \<Rightarrow> string" where
  "digits n = (if n < 10 then [digit_char n] else digits (n div 10) @ [digit_char (n mod 10)])"

declare digits.simps [simp del]

text \<open>\<open>'%d' % n\<close>.\<close>

definition fmt_d :: "int \<Rightarrow> string" where
  "fmt_d n = (if n < 0 then ''-'' else []) @ digits (nat \<bar>n\<bar>)"

text \<open>
  \<open>'%04d' % n\<close>: the sign, then zeros until the whole has at least four characters, then
  the digits. Four is the least width; a longer number is printed whole.
\<close>

definition fmt_04d :: "int \<Rightarrow> string" where
  "fmt_04d n =
     (let sign = (if n < 0 then ''-'' else []); ds = digits (nat \<bar>n\<bar>)
      in sign @ replicate (4 - (length sign + length ds)) CHR ''0'' @ ds)"

text \<open>
  Lines 33 to 41: the job counter. When the file is there, its first line is read as an
  integer and the file is written again with the next value; when it is not, the file is
  created with \<open>2\<close> and the count (\<open>cnt\<close> here) is 1. A first line that is no integer
  raises before the file is opened for writing.
\<close>

definition next_count :: "string \<Rightarrow> state \<Rightarrow> error + (int \<times> state)" where
  "next_count countfile s =
     (if isfile (filesys s) countfile then
        (case read_file (filesys s) countfile of
           Inl e \<Rightarrow> Inl e
         | Inr c \<Rightarrow>
             (case py_int (readline c) of
                Inl e \<Rightarrow> Inl e
              | Inr cnt \<Rightarrow> Inr (cnt, write_file countfile (fmt_d (cnt + 1)) s)))
      else Inr (1, write_file countfile ''2'' s))"

text \<open>Line 46: the path of the temp log.\<close>

definition tmplog_path :: "string \<Rightarrow> string \<Rightarrow> string \<Rightarrow> string \<Rightarrow> string" where
  "tmplog_path loghome jobdate jobtime jobid =
     loghome @ ''/.<euler-div-kernel-512_'' @ jobdate @ ''_'' @ jobtime @ ''_'' @ jobid @ ''>.tmp''"

text \<open>Line 53: the three lines of the temp log.\<close>

definition tmplog_content :: "string \<Rightarrow> string \<Rightarrow> string \<Rightarrow> string" where
  "tmplog_content jobdate jobtime jobid =
     jobdate @ [CHR 0x0A] @ jobtime @ [CHR 0x0A] @ jobid @ [CHR 0x0A]"

text \<open>Lines 60 and 63: the two command lines given to the shell.\<close>

definition submission_jc :: string where
  "submission_jc =
     ''bsub -cwd ${JC_JOBWD} -E \"${JC_PROLOG} '${JC_JOBTMP}'\" -Ep \"${JC_EPILOG} '${JC_JOBTMP}'\" -R fullnode < ${JC_JOB}''"

definition submission_plain :: string where
  "submission_plain = ''bsub -cwd ${JC_JOBWD} -R fullnode < ./job.sh''"

text \<open>
  Lines 61 and 64: the child is started, the script blocks in \<open>wait()\<close>, and the return
  code that \<open>wait()\<close> hands back is an expression statement: nothing reads it.
\<close>

definition run_submission :: "world \<Rightarrow> string \<Rightarrow> state \<Rightarrow> state \<times> (error + unit)" where
  "run_submission w submission s =
     (case popen_wait w submission (environ s) of
        Inl e \<Rightarrow> (s, Inl e)
      | Inr returncode \<Rightarrow>
          (s\<lparr>trace := trace s @ [Spawn submission, Exited returncode]\<rparr>, Inr ()))"

text \<open>
  The body under \<open>if __name__ == "__main__"\<close>. After line 28 \<open>os.environ\<close> is the
  dictionary read from the pipe. \<open>JC_LOGHOME\<close> is read back right after line 31 sets it,
  so it is the local \<open>loghome\<close> here; the same holds for the job date, time and id.
\<close>

definition submit_main :: "world \<Rightarrow> state \<times> (error + unit)" where
  "submit_main w =
     (let s0 = \<lparr>environ = (os_environ w)(''JC_JOBWD'' \<mapsto> arg_cwd w),
                filesys = os_files w, trace = []\<rparr>
      in if isfile (filesys s0) ''./common.sh'' then
           (case source_common w (environ s0) of
              Inl e \<Rightarrow> (s0, Inl e)
            | Inr dumped \<Rightarrow>
                (let loghome = ''.'';
                     s1 = s0\<lparr>environ := dumped(''JC_LOGHOME'' \<mapsto> loghome)\<rparr>;
                     countfile = loghome @ ''/.count''
                 in case next_count countfile s1 of
                      Inl e \<Rightarrow> (s1, Inl e)
                    | Inr (cnt, s2) \<Rightarrow>
                        (let jobid = fmt_04d cnt;
                             jobdate = now_date w;
                             jobtime = now_time w;
                             s3 = s2\<lparr>environ := (environ s2)(''JC_JOBID'' \<mapsto> jobid,
                                      ''JC_JOBDATE'' \<mapsto> jobdate, ''JC_JOBTIME'' \<mapsto> jobtime)\<rparr>;
                             tmplogfile = tmplog_path loghome jobdate jobtime jobid;
                             s4 = write_file tmplogfile (tmplog_content jobdate jobtime jobid) s3;
                             s5 = s4\<lparr>environ := (environ s4)(''JC_JOBTMP'' \<mapsto> tmplogfile)\<rparr>
                         in run_submission w submission_jc s5)))
         else run_submission w submission_plain s0)"

text \<open>
  The exit status of the interpreter: 1 when an exception reaches the top level, 0 when
  the script runs to its end (it never calls \<open>sys.exit\<close>).
\<close>

definition exit_status :: "error + unit \<Rightarrow> int" where
  "exit_status r = (case r of Inl _ \<Rightarrow> 1 | Inr _ \<Rightarrow> 0)"

section \<open>Benchmark Aggregator: post.py\<close>

text \<open>
  The script computes with pandas, which is not part of the repository. The calls it
  makes are the fields of a record, and every theorem below holds for any functions put
  there: \<open>read_csv\<close> is \<open>pd.read_csv(f, sep='\s+', names=cols)\<close> on the text of the file,
  \<open>describe\<close> is \<open>df.describe()\<close>, \<open>loc_mean\<close> is \<open>ds.loc['mean']\<close>, \<open>ds_to_string\<close> is
  \<open>ds.to_string()\<close> and \<open>da_to_string\<close> is \<open>da.to_string(index=False)\<close> for the frame that
  holds the appended rows in order. The first three may raise.
\<close>

record ('df, 'ds, 'row) pandas =
  read_csv :: "string \<Rightarrow> error + 'df"
  describe :: "'df \<Rightarrow> error + 'ds"
  loc_mean :: "'ds \<Rightarrow> error + 'row"
  ds_to_string :: "'ds \<Rightarrow> string"
  da_to_string :: "'row list \<Rightarrow> string"

record post_args =
  args_files :: "string list"
  args_out :: string

text \<open>\<open>with open(p, 'a') as out: out.write(text)\<close>: the text goes after what the file holds.\<close>

definition append_file :: "fs \<Rightarrow> string \<Rightarrow> string \<Rightarrow> fs" where
  "append_file fsys p txt = fsys(p \<mapsto> (case fsys p of None \<Rightarrow> txt | Some c \<Rightarrow> c @ txt))"

text \<open>Lines 24 to 26 on the text of one file: its statistics and their mean row.\<close>

definition analyse :: "('df, 'ds, 'row) pandas \<Rightarrow> string \<Rightarrow> error + ('ds \<times> 'row)" where
  "analyse lib c =
     (case read_csv lib c of
        Inl e \<Rightarrow> Inl e
      | Inr df \<Rightarrow>
          (case describe lib df of
             Inl e \<Rightarrow> Inl e
           | Inr ds \<Rightarrow>
               (case loc_mean lib ds of
                  Inl e \<Rightarrow> Inl e
                | Inr m \<Rightarrow> Inr (ds, m))))"

text \<open>
  The loop of lines 23 to 28 over the paths still to do, with the files and the summary
  \<open>da\<close> as they are so far. An exception leaves both as they were when it was raised.
\<close>

fun aggregate ::
  "('df, 'ds, 'row) pandas \<Rightarrow> string list \<Rightarrow> fs \<Rightarrow> 'row list \<Rightarrow> (fs \<times> 'row list) \<times> (error + unit)"
where
  "aggregate lib [] fsys da = ((fsys, da), Inr ())"
| "aggregate lib (f # fl) fsys da =
     (case read_file fsys f of
        Inl e \<Rightarrow> ((fsys, da), Inl e)
      | Inr c \<Rightarrow>
          (case analyse lib c of
             Inl e \<Rightarrow> ((fsys, da), Inl e)
           | Inr (ds, m) \<Rightarrow>
               aggregate lib fl (append_file fsys f (ds_to_string lib ds)) (da @ [m])))"

text \<open>
  \<open>main()\<close>: the loop over \<open>sorted(args.files)\<close>, then the summary written to
  \<open>args.output\<close> with mode \<open>w\<close>. \<open>sort\<close> on strings is the order of \<open>sorted\<close>: by code
  point, a proper prefix first.
\<close>

definition summary_table ::
  "('df, 'ds, 'row) pandas \<Rightarrow> post_args \<Rightarrow> fs \<Rightarrow> 'row list" where
  "summary_table lib a fsys = snd (fst (aggregate lib (sort (args_files a)) fsys []))"

definition post_main ::
  "('df, 'ds, 'row) pandas \<Rightarrow> post_args \<Rightarrow> fs \<Rightarrow> fs \<times> (error + unit)" where
  "post_main lib a fsys =
     (case aggregate lib (sort (args_files a)) fsys [] of
        ((fsys', da), Inl e) \<Rightarrow> (fsys', Inl e)
      | ((fsys', da), Inr _) \<Rightarrow> (fsys'(args_out a \<mapsto> da_to_string lib da), Inr ()))"

section \<open>Sample inputs and auxiliary notions\<close>

text \<open>
  The example of the specification for the Version Stamper: \<open>VERSION\<close> holds \<open>1.2.3\<close>,
  there is no \<open>.git\<close> directory, and the template is \<open>v@VERSION@ (@HEAD@/@SHA1@)\<close>.
\<close>

definition stamper_example_args :: args where
  "stamper_example_args =
     \<lparr>args_input = ''version.h.in'', args_output = ''version.h'', args_project_root = ''.''\<rparr>"

definition stamper_example_files :: fs where
  "stamper_example_files =
     [''./VERSION'' \<mapsto> ''1.2.3'', ''version.h.in'' \<mapsto> ''v@VERSION@ (@HEAD@/@SHA1@)'']"

text \<open>The same project with a detached head: \<open>.git/HEAD\<close> holds a commit hash alone.\<close>

definition detached_head_files :: fs where
  "detached_head_files = stamper_example_files(''./.git/HEAD'' \<mapsto> ''abc123\<newline>'')"

text \<open>
  A run of the Job Submitter observes the counter value \<open>n\<close> and writes \<open>v\<close> back: with
  no \<open>.count\<close> file the value is 1 and the text written is \<open>2\<close>; with a file whose first
  line reads as \<open>n\<close>, the text written is \<open>'%d' % (n + 1)\<close>.
\<close>

definition observes :: "world \<Rightarrow> int \<Rightarrow> string \<Rightarrow> bool" where
  "observes w n v =
     (case os_files w ''./.count'' of
        None \<Rightarrow> n = 1 \<and> v = ''2''
      | Some c \<Rightarrow> py_int (readline c) = Inr n \<and> v = fmt_d (n + 1))"

text \<open>
  The state in which the configured branch starts the scheduler, for a run that observes
  \<open>n\<close> and writes \<open>v\<close>: the environment read from the pipe with the five \<open>JC_\<close>
  variables set, the two files written, and the two writes in the trace.
\<close>

definition jc_state :: "world \<Rightarrow> env \<Rightarrow> int \<Rightarrow> string \<Rightarrow> state" where
  "jc_state w dumped n v =
     (let jobid = fmt_04d n;
          tmplogfile = tmplog_path ''.'' (now_date w) (now_time w) jobid;
          content = tmplog_content (now_date w) (now_time w) jobid
      in \<lparr>environ = dumped(''JC_LOGHOME'' \<mapsto> ''.'', ''JC_JOBID'' \<mapsto> jobid,
                     ''JC_JOBDATE'' \<mapsto> now_date w, ''JC_JOBTIME'' \<mapsto> now_time w,
                     ''JC_JOBTMP'' \<mapsto> tmplogfile),
          filesys = (os_files w)(''./.count'' \<mapsto> v, tmplogfile \<mapsto> content),
          trace = [WriteFile ''./.count'' v, WriteFile tmplogfile content]\<rparr>)"

text \<open>
  Two worlds to run the Job Submitter in. In the first there is no \<open>common.sh\<close> and the
  scheduler exits with code 1. In the second \<open>common.sh\<close> exists and exports \<open>JC_JOB\<close>,
  the other files are given, and the scheduler exits with code 255.
\<close>

definition failing_scheduler :: world where
  "failing_scheduler =
     \<lparr>arg_cwd = ''/scratch/run'', os_environ = Map.empty, os_files = Map.empty,
      now_date = ''2020-02-20'', now_time = ''14:27'',
      source_common = (\<lambda>e. Inr e), popen_wait = (\<lambda>cmd e. Inr 1)\<rparr>"

definition configured_world :: "fs \<Rightarrow> world" where
  "configured_world fsys =
     \<lparr>arg_cwd = ''/scratch/run'', os_environ = Map.empty,
      os_files = fsys(''./common.sh'' \<mapsto> ''export JC_JOB=./job.sh''),
      now_date = ''2020-02-20'', now_time = ''14:27'',
      source_common = (\<lambda>e. Inr (e(''JC_JOB'' \<mapsto> ''./job.sh''))),
      popen_wait = (\<lambda>cmd e. Inr 255)\<rparr>"

text \<open>
  A stand-in for the library on files of one row, used only to run the aggregator on
  sample inputs: a frame is the list of its rows of cells as written, the statistics of a
  frame of one row are that row, which is also its mean, and the two printers put single
  blanks between cells. It is not pandas; no theorem about \<open>post_main\<close> below depends on
  it, only their instances at sample inputs do.
\<close>

definition one_row_pandas :: "(string list list, string list, string list) pandas" where
  "one_row_pandas =
     \<lparr>read_csv = (\<lambda>c. case filter (\<lambda>r. r \<noteq> []) (map split_ws (split_on CHR 0x0A c)) of
                          [r] \<Rightarrow> if length r = 5 then Inr [r] else Inl LibraryError
                        | _ \<Rightarrow> Inl LibraryError),
      describe = (\<lambda>df. case df of [r] \<Rightarrow> Inr r | _ \<Rightarrow> Inl LibraryError),
      loc_mean = (\<lambda>ds. Inr ds),
      ds_to_string = (\<lambda>ds. ''mean'' @ concat (map (\<lambda>x. CHR '' '' # x) ds)),
      da_to_string = (\<lambda>da. ''blocks t_init t_comp t_dump t_tot'' @
                              concat (map (\<lambda>r. CHR 0x0A # concat (map (\<lambda>x. CHR '' '' # x) r)) da))\<rparr>"

text \<open>Two benchmark files with the same single row.\<close>

definition two_runs :: fs where
  "two_runs = [''run_a.dat'' \<mapsto> ''4 1.0 2.0 3.0 6.0\<newline>'', ''run_b.dat'' \<mapsto> ''4 1.0 2.0 3.0 6.0\<newline>'']"

section \<open>Properties of the Version Stamper\<close>

lemma strip_12: "strip ''1.2'' = ''1.2''" by (simp add: strip_def is_space_def)

lemma strip_123: "strip ''1.2.3'' = ''1.2.3''" by (simp add: strip_def is_space_def)

lemma strip_abc: "strip ''abc123\<newline>'' = ''abc123''" by (simp add: strip_def is_space_def)

lemma read_version_length:
  assumes "read_file files (path_join (args_project_root a) [''VERSION'']) = Inr c"
  shows "read_version a files =
           (case split_on CHR ''.'' (strip c) of
              [major, minor, patch] \<Rightarrow> Inr (strip c, major, minor, patch)
            | _ \<Rightarrow> Inl ValueError)"
  using assms by (simp add: read_version_def Let_def)

text \<open>
  \<open>main\<close> never changes a file and never returns normally: whatever the inputs, it ends
  in an exception, at the latest at the write through the handle opened for reading.
\<close>

lemma gen_version_main_frame: "fst (gen_version_main a files) = files"
  by (simp add: gen_version_main_def write_output_def split: sum.splits prod.splits option.splits)

lemma gen_version_main_raises: "\<exists>e. snd (gen_version_main a files) = Inl e"
  by (simp add: gen_version_main_def write_output_def split: sum.splits prod.splits option.splits)

text \<open>
  C1, at the example of the specification. The claim asks for the output \<open>v1.2.3 (/)\<close>,
  which is what the three substitutions give (\<open>stamp_spec\<close>). The code writes nothing:
  with no file at the output path it raises \<open>FileNotFoundError\<close>, and with a file there it
  raises \<open>io.UnsupportedOperation\<close> and leaves the file as it was.
\<close>

theorem stamper_example_not_written:
  "gen_version_main stamper_example_args stamper_example_files
     = (stamper_example_files, Inl (FileNotFoundError ''version.h''))
   \<and> gen_version_main stamper_example_args (stamper_example_files(''version.h'' \<mapsto> ''old''))
     = (stamper_example_files(''version.h'' \<mapsto> ''old''), Inl UnsupportedOperation)
   \<and> stamp_spec ''1.2.3'' [] [] ''v@VERSION@ (@HEAD@/@SHA1@)'' = ''v1.2.3 (/)''"
proof (intro conjI)
  have rv: "read_version stamper_example_args stamper_example_files = Inr (''1.2.3'', ''1'', ''2'', ''3'')"
    by (simp add: read_version_def read_file_def stamper_example_args_def stamper_example_files_def
        strip_123 split_on_def)
  have rh: "resolve_head stamper_example_args stamper_example_files = Inr (PStr [], PStr [])"
    by (simp add: resolve_head_def isfile_def stamper_example_args_def stamper_example_files_def)
  have rt: "read_file stamper_example_files (args_input stamper_example_args)
              = Inr ''v@VERSION@ (@HEAD@/@SHA1@)''"
    by (simp add: read_file_def stamper_example_args_def stamper_example_files_def)
  have wo: "write_output stamper_example_files (args_output stamper_example_args) t
              = (stamper_example_files, Inl (FileNotFoundError ''version.h''))" for t
    by (simp add: write_output_def stamper_example_args_def stamper_example_files_def)
  show "gen_version_main stamper_example_args stamper_example_files
     = (stamper_example_files, Inl (FileNotFoundError ''version.h''))"
    by (simp add: gen_version_main_def rv rh rt wo str_replace_def)
  let ?g = "stamper_example_files(''version.h'' \<mapsto> ''old'')"
  have rv': "read_version stamper_example_args ?g = Inr (''1.2.3'', ''1'', ''2'', ''3'')"
    by (simp add: read_version_def read_file_def stamper_example_args_def stamper_example_files_def
        strip_123 split_on_def)
  have rh': "resolve_head stamper_example_args ?g = Inr (PStr [], PStr [])"
    by (simp add: resolve_head_def isfile_def stamper_example_args_def stamper_example_files_def)
  have rt': "read_file ?g (args_input stamper_example_args) = Inr ''v@VERSION@ (@HEAD@/@SHA1@)''"
    by (simp add: read_file_def stamper_example_args_def stamper_example_files_def)
  have wo': "write_output ?g (args_output stamper_example_args) t = (?g, Inl UnsupportedOperation)" for t
    by (simp add: write_output_def stamper_example_args_def)
  show "gen_version_main stamper_example_args ?g = (?g, Inl UnsupportedOperation)"
    by (simp add: gen_version_main_def rv' rh' rt' wo' str_replace_def)
  show "stamp_spec ''1.2.3'' [] [] ''v@VERSION@ (@HEAD@/@SHA1@)'' = ''v1.2.3 (/)''"
    by simp
qed

text \<open>
  The two cases of the head resolution that hold as described: without \<open>.git/HEAD\<close> both
  values are the empty string, and with more than one token the head reference is the
  second token and the commit hash is the stripped content of the file that
  \<open>os.path.join(project_root, '.git', token)\<close> names, when that file is there.
\<close>

lemma resolve_head_no_git:
  assumes "\<not> isfile files (path_join (args_project_root a) [''.git'', ''HEAD''])"
  shows "resolve_head a files = Inr (PStr [], PStr [])"
  using assms by (simp add: resolve_head_def)

lemma resolve_head_symbolic:
  assumes "read_file files (path_join (args_project_root a) [''.git'', ''HEAD'']) = Inr c"
    and "length (split_ws (strip c)) > 1"
    and "read_file files (path_join (args_project_root a) [''.git'', split_ws (strip c) ! 1]) = Inr s"
  shows "resolve_head a files = Inr (PStr (split_ws (strip c) ! 1), PStr (strip s))"
  using assms by (auto simp add: resolve_head_def isfile_def read_file_def Let_def split: option.splits)

text \<open>With a single token both variables hold the list of that token, not the token.\<close>

lemma resolve_head_single:
  assumes "read_file files (path_join (args_project_root a) [''.git'', ''HEAD'']) = Inr c"
    and "split_ws (strip c) = [tok]"
  shows "resolve_head a files = Inr (PList [tok], PList [tok])"
  using assms by (auto simp add: resolve_head_def isfile_def read_file_def Let_def split: option.splits)

text \<open>
  C4, at a detached head. The claim says that the single token of \<open>.git/HEAD\<close> is the
  commit hash. The code leaves the list \<open>['abc123']\<close> in \<open>HEAD\<close> and in \<open>SHA1\<close>, and the
  call \<open>replace('@HEAD@', HEAD)\<close> then raises \<open>TypeError\<close>.
\<close>

theorem detached_head_sha1_is_list:
  "resolve_head stamper_example_args detached_head_files = Inr (PList [''abc123''], PList [''abc123''])
   \<and> gen_version_main stamper_example_args detached_head_files = (detached_head_files, Inl TypeError)"
proof -
  have rv: "read_version stamper_example_args detached_head_files = Inr (''1.2.3'', ''1'', ''2'', ''3'')"
    by (simp add: read_version_def read_file_def stamper_example_args_def stamper_example_files_def
        detached_head_files_def strip_123 split_on_def)
  have rh: "resolve_head stamper_example_args detached_head_files
              = Inr (PList [''abc123''], PList [''abc123''])"
    by (simp add: resolve_head_def isfile_def read_file_def stamper_example_args_def
        detached_head_files_def strip_abc split_ws_def is_space_def Let_def)
  have rt: "read_file detached_head_files (args_input stamper_example_args)
              = Inr ''v@VERSION@ (@HEAD@/@SHA1@)''"
    by (simp add: read_file_def stamper_example_args_def stamper_example_files_def detached_head_files_def)
  have "gen_version_main stamper_example_args detached_head_files = (detached_head_files, Inl TypeError)"
    by (simp add: gen_version_main_def rv rh rt str_replace_def)
  with rh show ?thesis by simp
qed

text \<open>
  C5: when the stripped content of \<open>VERSION\<close> does not split on \<open>.\<close> into exactly three
  components, \<open>main\<close> ends with the \<open>ValueError\<close> of the unpacking on line 28 and has
  changed no file; when it does, the three components are major, minor and patch.
\<close>

theorem version_three_components:
  assumes "read_file files (path_join (args_project_root a) [''VERSION'']) = Inr c"
  shows "(length (split_on CHR ''.'' (strip c)) \<noteq> 3 \<longrightarrow>
            read_version a files = Inl ValueError \<and>
            gen_version_main a files = (files, Inl ValueError))
       \<and> (length (split_on CHR ''.'' (strip c)) = 3 \<longrightarrow>
            (\<exists>major minor patch.
               split_on CHR ''.'' (strip c) = [major, minor, patch] \<and>
               read_version a files = Inr (strip c, major, minor, patch)))"
proof (intro conjI impI)
  assume n3: "length (split_on CHR ''.'' (strip c)) \<noteq> 3"
  then show rv: "read_version a files = Inl ValueError"
    unfolding read_version_length [OF assms]
    by (auto split: list.splits)
  then show "gen_version_main a files = (files, Inl ValueError)"
    by (simp add: gen_version_main_def)
next
  assume "length (split_on CHR ''.'' (strip c)) = 3"
  then obtain major minor patch where
    "split_on CHR ''.'' (strip c) = [major, minor, patch]"
    by (auto simp: length_Suc_conv numeral_3_eq_3)
  then show "\<exists>major minor patch.
               split_on CHR ''.'' (strip c) = [major, minor, patch] \<and>
               read_version a files = Inr (strip c, major, minor, patch)"
    unfolding read_version_length [OF assms] by simp
qed

theorem version_three_components_witness:
  "gen_version_main stamper_example_args (stamper_example_files(''./VERSION'' \<mapsto> ''1.2''))
     = (stamper_example_files(''./VERSION'' \<mapsto> ''1.2''), Inl ValueError)
   \<and> read_version stamper_example_args stamper_example_files = Inr (''1.2.3'', ''1'', ''2'', ''3'')"
proof -
  have p: "path_join (args_project_root stamper_example_args) [''VERSION''] = ''./VERSION''"
    by (simp add: stamper_example_args_def)
  have f2: "read_file (stamper_example_files(''./VERSION'' \<mapsto> ''1.2''))
              (path_join (args_project_root stamper_example_args) [''VERSION'']) = Inr ''1.2''"
    unfolding p by (simp add: read_file_def)
  have f3: "read_file stamper_example_files
              (path_join (args_project_root stamper_example_args) [''VERSION'']) = Inr ''1.2.3''"
    unfolding p by (simp add: stamper_example_files_def read_file_def)
  have s2: "split_on CHR ''.'' (strip ''1.2'') = [''1'', ''2'']"
    by (simp add: strip_12 split_on_def)
  have s3: "split_on CHR ''.'' (strip ''1.2.3'') = [''1'', ''2'', ''3'']"
    by (simp add: strip_123 split_on_def)
  from version_three_components [OF f2] s2
  have a: "gen_version_main stamper_example_args (stamper_example_files(''./VERSION'' \<mapsto> ''1.2''))
     = (stamper_example_files(''./VERSION'' \<mapsto> ''1.2''), Inl ValueError)"
    by simp
  from version_three_components [OF f3] s3
  have b: "read_version stamper_example_args stamper_example_files = Inr (''1.2.3'', ''1'', ''2'', ''3'')"
    by (simp add: strip_123)
  from a b show ?thesis by simp
qed

section \<open>Properties of the Job Submitter\<close>

subsection \<open>Decimal text and \<open>int()\<close>\<close>

lemma digit_char_is_digit: "d < 10 \<Longrightarrow> is_digit (digit_char d)"
proof -
  assume "d < 10"
  then have "d \<in> {0, 1, 2, 3, 4, 5, 6, 7, 8, 9}" by auto
  then show ?thesis by (auto simp: is_digit_def digit_char_def)
qed

lemma digit_val_digit_char: "d < 10 \<Longrightarrow> digit_val (digit_char d) = d"
proof -
  assume "d < 10"
  then have "d \<in> {0, 1, 2, 3, 4, 5, 6, 7, 8, 9}" by auto
  then show ?thesis by (auto simp: digit_val_def digit_char_def)
qed

lemma is_digit_not_space: "is_digit c \<Longrightarrow> \<not> is_space c"
  by (auto simp: is_digit_def is_space_def)


lemma is_digit_not_sign: "is_digit c \<Longrightarrow> c \<noteq> CHR ''-'' \<and> c \<noteq> CHR ''+'' \<and> c \<noteq> CHR ''_''"
  by (auto simp: is_digit_def)

lemma digits_nonempty: "digits n \<noteq> []"
  by (subst digits.simps) simp

lemma digits_all_digit: "c \<in> set (digits n) \<Longrightarrow> is_digit c"
proof (induction n arbitrary: c rule: digits.induct)
  case (1 n)
  show ?case
  proof (cases "n < 10")
    case True
    with "1.prems" show ?thesis
      by (subst (asm) digits.simps) (simp add: digit_char_is_digit)
  next
    case False
    with "1.prems" have "c \<in> set (digits (n div 10)) \<or> c = digit_char (n mod 10)"
      by (subst (asm) digits.simps) auto
    with False "1.IH" show ?thesis
      by (auto simp: digit_char_is_digit)
  qed
qed

lemma length_digits_le: "0 < k \<Longrightarrow> n < 10 ^ k \<Longrightarrow> length (digits n) \<le> k"
proof (induction k arbitrary: n)
  case 0
  then show ?case by simp
next
  case (Suc k)
  show ?case
  proof (cases "n < 10")
    case True
    then show ?thesis by (subst digits.simps) simp
  next
    case False
    then have k: "0 < k" using Suc.prems by (cases k) auto
    have "n div 10 < 10 ^ k" using Suc.prems by (simp add: less_mult_imp_div_less mult.commute)
    with Suc.IH k have "length (digits (n div 10)) \<le> k" by simp
    with False show ?thesis by (subst digits.simps) simp
  qed
qed

lemma length_digits_ge: "10 ^ k \<le> n \<Longrightarrow> k < length (digits n)"
proof (induction k arbitrary: n)
  case 0
  then show ?case using digits_nonempty [of n] by (cases "digits n") auto
next
  case (Suc k)
  have "(1::nat) \<le> 10 ^ k" by simp
  then have "(10::nat) \<le> 10 ^ Suc k" by simp
  with Suc.prems have n10: "\<not> n < 10" by linarith
  have "10 ^ k \<le> n div 10" using Suc.prems by (simp add: less_eq_div_iff_mult_less_eq mult.commute)
  with Suc.IH have "k < length (digits (n div 10))" by simp
  with n10 show ?case by (subst digits.simps) simp
qed

text \<open>A string of digits is read as the number it denotes, leading zeros included.\<close>

lemma parse_digits_all_digit:
  "\<forall>c \<in> set ds. is_digit c \<Longrightarrow>
     parse_digits acc ds = Some (fold (\<lambda>c a. a * 10 + digit_val c) ds acc)"
  by (induction acc ds rule: parse_digits.induct) auto

lemma parse_unsigned_all_digit:
  assumes "ds \<noteq> []" and "\<forall>c \<in> set ds. is_digit c"
  shows "parse_unsigned ds = Some (fold (\<lambda>c a. a * 10 + digit_val c) ds 0)"
  using assms by (cases ds) (auto simp: parse_unsigned_def parse_digits_all_digit)

lemma fold_digits: "fold (\<lambda>c a. a * 10 + digit_val c) (digits n) 0 = n"
proof (induction n rule: digits.induct)
  case (1 n)
  show ?case
  proof (cases "n < 10")
    case True
    then show ?thesis by (subst digits.simps) (simp add: digit_val_digit_char)
  next
    case False
    with "1.IH" show ?thesis
      by (subst digits.simps) (simp add: digit_val_digit_char)
  qed
qed

lemma fold_zeros: "fold (\<lambda>c a. a * 10 + digit_val c) (replicate k CHR ''0'') 0 = 0"
  by (induction k) (auto simp: digit_val_def)

lemma parse_unsigned_padded:
  "parse_unsigned (replicate k CHR ''0'' @ digits n) = Some n"
proof -
  have z: "is_digit CHR ''0''" by (simp add: is_digit_def)
  have "\<forall>c \<in> set (replicate k CHR ''0'' @ digits n). is_digit c"
    using z digits_all_digit by auto
  moreover have "replicate k CHR ''0'' @ digits n \<noteq> []"
    using digits_nonempty by simp
  ultimately have "parse_unsigned (replicate k CHR ''0'' @ digits n)
      = Some (fold (\<lambda>c a. a * 10 + digit_val c) (replicate k CHR ''0'' @ digits n) 0)"
    by (rule parse_unsigned_all_digit [rotated])
  then show ?thesis
    by (simp only: fold_append o_apply fold_zeros fold_digits)
qed

lemma strip_id:
  assumes "s \<noteq> []" and "\<not> is_space (hd s)" and "\<not> is_space (last s)"
  shows "strip s = s"
proof -
  have "dropWhile is_space (rev s) = rev s"
    using assms by (cases "rev s") (auto simp: hd_rev)
  moreover have "dropWhile is_space s = s"
    using assms by (cases s) auto
  ultimately show ?thesis by (simp add: strip_def)
qed

lemma py_int_signed_padded:
  "py_int ((if n < 0 then ''-'' else []) @ replicate k CHR ''0'' @ digits (nat \<bar>n\<bar>)) = Inr n"
proof -
  let ?body = "replicate k CHR ''0'' @ digits (nat \<bar>n\<bar>)"
  have z: "is_digit CHR ''0''" by (simp add: is_digit_def)
  have all: "\<forall>c \<in> set ?body. is_digit c" using z digits_all_digit by auto
  have ne: "?body \<noteq> []" using digits_nonempty by simp
  have lastd: "is_digit (last ?body)" using all ne last_in_set by blast
  have hdd: "is_digit (hd ?body)" using all ne hd_in_set by blast
  show ?thesis
  proof (cases "n < 0")
    case True
    have ms: "\<not> is_space CHR ''-''" by (simp add: is_space_def)
    have "strip (''-'' @ ?body) = ''-'' @ ?body"
      using ne lastd ms by (intro strip_id) (auto simp: is_digit_not_space)
    then show ?thesis using True
      by (simp add: py_int_def parse_unsigned_padded)
  next
    case False
    have st: "strip ?body = ?body"
      using ne lastd hdd by (intro strip_id) (auto simp: is_digit_not_space)
    obtain c cs where cc: "?body = c # cs" using ne by (cases ?body) auto
    with hdd have "is_digit c" by simp
    then have "c \<noteq> CHR ''-''" "c \<noteq> CHR ''+''" using is_digit_not_sign by auto
    moreover have "parse_unsigned (c # cs) = Some (nat \<bar>n\<bar>)"
      using parse_unsigned_padded [of k "nat \<bar>n\<bar>"] cc by simp
    ultimately show ?thesis using False st cc
      by (simp add: py_int_def)
  qed
qed

text \<open>What \<open>%d\<close> and \<open>%04d\<close> print is read back by \<open>int()\<close> as the same number.\<close>

lemma py_int_fmt_04d: "py_int (fmt_04d n) = Inr n"
  using py_int_signed_padded [of n] by (simp add: fmt_04d_def Let_def)



lemma length_fmt_04d_ge: "4 \<le> length (fmt_04d n)"
  by (simp add: fmt_04d_def Let_def)

lemma fmt_04d_four_digits:
  assumes "0 \<le> n" and "n < 10000"
  shows "length (fmt_04d n) = 4 \<and> (\<forall>c \<in> set (fmt_04d n). is_digit c)"
proof -
  have "nat \<bar>n\<bar> < 10 ^ 4" using assms by simp
  then have "length (digits (nat \<bar>n\<bar>)) \<le> 4" by (intro length_digits_le) simp_all
  moreover have "is_digit CHR ''0''" by (simp add: is_digit_def)
  ultimately show ?thesis
    using assms digits_all_digit by (auto simp: fmt_04d_def Let_def)
qed

lemma fmt_04d_long:
  assumes "10000 \<le> n"
  shows "4 < length (fmt_04d n)"
proof -
  have "10 ^ 4 \<le> nat \<bar>n\<bar>" using assms by simp
  then have "4 < length (digits (nat \<bar>n\<bar>))" by (rule length_digits_ge)
  then show ?thesis using assms by (simp add: fmt_04d_def Let_def)
qed

lemma digits_values:
  "digits (Suc 0) = ''1''" "digits 2 = ''2''" "digits 3 = ''3''" "digits 10000 = ''10000''"
  "digits 10001 = ''10001''"
  by (simp_all add: digits.simps digit_char_def)

lemma replicate_3: "replicate 3 x = [x, x, x]"
  by (simp add: numeral_3_eq_3)

lemma fmt_values:
  "fmt_04d 1 = ''0001''" "fmt_04d 2 = ''0002''" "fmt_d 3 = ''3''" "fmt_04d 10000 = ''10000''"
  "fmt_d 10001 = ''10001''"
  by (simp_all add: fmt_04d_def fmt_d_def Let_def digits_values replicate_3)

lemma py_int_2: "py_int (readline ''2'') = Inr 2"
  by (simp add: py_int_def readline_def strip_def is_space_def parse_unsigned_def is_digit_def
      digit_val_def)

lemma py_int_10000: "py_int (readline ''10000'') = Inr 10000"
  by (simp add: py_int_def readline_def strip_def is_space_def parse_unsigned_def is_digit_def
      digit_val_def)

subsection \<open>The run\<close>

lemma next_count_absent:
  assumes "filesys s p = None"
  shows "next_count p s = Inr (1, write_file p ''2'' s)"
  using assms by (simp add: next_count_def isfile_def)

lemma next_count_present:
  assumes "filesys s p = Some c" and "py_int (readline c) = Inr n"
  shows "next_count p s = Inr (n, write_file p (fmt_d (n + 1)) s)"
  using assms by (simp add: next_count_def isfile_def read_file_def)

lemma next_count_trace:
  assumes "next_count p s = Inr (n, s')"
  shows "\<exists>v. s' = write_file p v s"
  using assms
  by (auto simp: next_count_def split: if_splits sum.splits)

lemma tmplog_not_countfile: "tmplog_path ''.'' d t j \<noteq> ''./.count''"
  by (simp add: tmplog_path_def)

lemma submit_main_jc:
  assumes cs: "isfile (os_files w) ''./common.sh''"
    and src: "source_common w ((os_environ w)(''JC_JOBWD'' \<mapsto> arg_cwd w)) = Inr dumped"
    and obs: "observes w n v"
  shows "submit_main w = run_submission w submission_jc (jc_state w dumped n v)"
proof -
  let ?s1 = "\<lparr>environ = dumped(''JC_LOGHOME'' \<mapsto> ''.''), filesys = os_files w, trace = []\<rparr>"
  have nc: "next_count ''./.count'' ?s1 = Inr (n, write_file ''./.count'' v ?s1)"
  proof (cases "os_files w ''./.count''")
    case None
    with obs have "n = 1" "v = ''2''" by (simp_all add: observes_def)
    with None show ?thesis by (simp add: next_count_absent)
  next
    case (Some c)
    with obs have "py_int (readline c) = Inr n" "v = fmt_d (n + 1)" by (simp_all add: observes_def)
    with Some show ?thesis by (simp add: next_count_present)
  qed
  show ?thesis
    using cs src
    by (simp add: submit_main_def Let_def nc write_file_def jc_state_def)
qed

lemma run_submission_filesys: "filesys (fst (run_submission w cmd s)) = filesys s"
  by (simp add: run_submission_def split: sum.splits)

lemma run_submission_environ: "environ (fst (run_submission w cmd s)) = environ s"
  by (simp add: run_submission_def split: sum.splits)

lemma run_submission_trace:
  "trace (fst (run_submission w cmd s)) =
     trace s @ (case popen_wait w cmd (environ s) of
                  Inl e \<Rightarrow> [] | Inr rc \<Rightarrow> [Spawn cmd, Exited rc])"
  by (simp add: run_submission_def split: sum.splits)

lemma run_submission_exited:
  assumes "Exited N \<in> set (trace (fst (run_submission w cmd s)))"
    and "Exited N \<notin> set (trace s)"
  shows "snd (run_submission w cmd s) = Inr ()"
  using assms by (auto simp: run_submission_def split: sum.splits)

lemma submit_main_cases:
  "(\<exists>e s. submit_main w = (s, Inl e) \<and> trace s = []) \<or>
   (\<exists>cmd s. submit_main w = run_submission w cmd s \<and> (\<forall>N. Exited N \<notin> set (trace s)))"
proof (cases "isfile (os_files w) ''./common.sh''")
  case False
  then have "submit_main w = run_submission w submission_plain
      \<lparr>environ = (os_environ w)(''JC_JOBWD'' \<mapsto> arg_cwd w), filesys = os_files w, trace = []\<rparr>"
    by (simp add: submit_main_def)
  then show ?thesis by force
next
  case cs: True
  show ?thesis
  proof (cases "source_common w ((os_environ w)(''JC_JOBWD'' \<mapsto> arg_cwd w))")
    case (Inl e)
    with cs show ?thesis by (simp add: submit_main_def)
  next
    case (Inr dumped)
    let ?s1 = "\<lparr>environ = dumped(''JC_LOGHOME'' \<mapsto> ''.''), filesys = os_files w, trace = []\<rparr>"
    show ?thesis
    proof (cases "next_count ''./.count'' ?s1")
      case (Inl e)
      with cs Inr show ?thesis by (simp add: submit_main_def)
    next
      case nc: (Inr r)
      obtain n s2 where r: "r = (n, s2)" by (cases r)
      with nc obtain v where s2: "s2 = write_file ''./.count'' v ?s1"
        using next_count_trace by blast
      have "submit_main w = run_submission w submission_jc (jc_state w dumped n v)"
        using cs Inr nc r s2 by (simp add: submit_main_def Let_def write_file_def jc_state_def)
      moreover have "\<forall>N. Exited N \<notin> set (trace (jc_state w dumped n v))"
        by (simp add: jc_state_def Let_def)
      ultimately show ?thesis by blast
    qed
  qed
qed

lemma configured_world_simps:
  "isfile (os_files (configured_world fsys)) ''./common.sh''"
  "source_common (configured_world fsys)
     ((os_environ (configured_world fsys))(''JC_JOBWD'' \<mapsto> arg_cwd (configured_world fsys)))
     = Inr [''JC_JOBWD'' \<mapsto> ''/scratch/run'', ''JC_JOB'' \<mapsto> ''./job.sh'']"
  "os_files (configured_world fsys) ''./.count'' = fsys ''./.count''"
  "now_date (configured_world fsys) = ''2020-02-20''"
  "now_time (configured_world fsys) = ''14:27''"
  "popen_wait (configured_world fsys) cmd e = Inr 255"
  by (simp_all add: configured_world_def isfile_def)

text \<open>
  C2, as amended: in every run in which the scheduler was started and \<open>wait()\<close> returned
  its code \<open>N\<close>, the script runs to its end and the interpreter exits with status 0,
  whatever \<open>N\<close> is. The return code is not the exit status of the script.
\<close>

theorem exit_status_ignores_returncode:
  assumes "Exited N \<in> set (trace (fst (submit_main w)))"
  shows "exit_status (snd (submit_main w)) = 0"
proof -
  from submit_main_cases [of w] assms
  obtain cmd s where run: "submit_main w = run_submission w cmd s"
    and none: "\<forall>N. Exited N \<notin> set (trace s)"
    by auto
  from assms run none have "snd (run_submission w cmd s) = Inr ()"
    by (intro run_submission_exited [where N = N]) auto
  with run show ?thesis by (simp add: exit_status_def)
qed

theorem exit_status_ignores_returncode_witness:
  "Exited 1 \<in> set (trace (fst (submit_main failing_scheduler)))
   \<and> exit_status (snd (submit_main failing_scheduler)) = 0"
proof -
  have e: "Exited 1 \<in> set (trace (fst (submit_main failing_scheduler)))"
    by (simp add: submit_main_def failing_scheduler_def isfile_def run_submission_def)
  from exit_status_ignores_returncode [OF e] e show ?thesis by simp
qed

text \<open>
  C2 as stated fails where the scheduler exits with code 1: the script exits with 0.
\<close>

theorem exit_code_not_propagated:
  "trace (fst (submit_main failing_scheduler)) = [Spawn submission_plain, Exited 1]
   \<and> exit_status (snd (submit_main failing_scheduler)) \<noteq> 1"
  by (simp add: submit_main_def failing_scheduler_def isfile_def run_submission_def exit_status_def)



text \<open>
  C9: in the configured branch the counter and the temp log are written before the
  scheduler is started, in this order, and nothing is written after; both files hold
  what was written whether the shell could not be started or the scheduler exited with
  any code.
\<close>

theorem counter_written_before_spawn:
  assumes cs: "isfile (os_files w) ''./common.sh''"
    and src: "source_common w ((os_environ w)(''JC_JOBWD'' \<mapsto> arg_cwd w)) = Inr dumped"
    and obs: "observes w n v"
    and tmp: "tmplogfile = tmplog_path ''.'' (now_date w) (now_time w) (fmt_04d n)"
  shows "trace (fst (submit_main w)) =
           [WriteFile ''./.count'' v,
            WriteFile tmplogfile (tmplog_content (now_date w) (now_time w) (fmt_04d n))] @
           (case popen_wait w submission_jc (environ (fst (submit_main w))) of
              Inl e \<Rightarrow> []
            | Inr rc \<Rightarrow> [Spawn submission_jc, Exited rc])
       \<and> filesys (fst (submit_main w)) ''./.count'' = Some v
       \<and> filesys (fst (submit_main w)) tmplogfile
           = Some (tmplog_content (now_date w) (now_time w) (fmt_04d n))"
  unfolding submit_main_jc [OF cs src obs] run_submission_filesys run_submission_environ
    run_submission_trace tmp
  by (simp add: jc_state_def Let_def tmplog_not_countfile tmplog_not_countfile [THEN not_sym])

theorem counter_written_before_spawn_witness:
  "trace (fst (submit_main (configured_world [''./.count'' \<mapsto> ''2'']))) =
     [WriteFile ''./.count'' ''3'',
      WriteFile ''./.<euler-div-kernel-512_2020-02-20_14:27_0002>.tmp''
        ''2020-02-20\<newline>14:27\<newline>0002\<newline>'',
      Spawn submission_jc, Exited 255]
   \<and> filesys (fst (submit_main (configured_world [''./.count'' \<mapsto> ''2'']))) ''./.count'' = Some ''3''
   \<and> filesys (fst (submit_main (configured_world [''./.count'' \<mapsto> ''2''])))
        ''./.<euler-div-kernel-512_2020-02-20_14:27_0002>.tmp''
        = Some ''2020-02-20\<newline>14:27\<newline>0002\<newline>''"
proof -
  have obs: "observes (configured_world [''./.count'' \<mapsto> ''2'']) 2 ''3''"
    by (simp add: observes_def configured_world_simps(3) py_int_2 fmt_values)
  have tmp: "''./.<euler-div-kernel-512_2020-02-20_14:27_0002>.tmp'' =
      tmplog_path ''.'' (now_date (configured_world [''./.count'' \<mapsto> ''2'']))
        (now_time (configured_world [''./.count'' \<mapsto> ''2''])) (fmt_04d 2)"
    by (simp add: tmplog_path_def configured_world_simps fmt_values)
  from counter_written_before_spawn
    [OF configured_world_simps(1) configured_world_simps(2) obs tmp]
  show ?thesis
    by (simp add: configured_world_simps fmt_values tmplog_content_def)
qed

text \<open>
  C8, as amended: the job id in the environment and on the third line of the temp log is
  the counter value \<open>n\<close> printed with \<open>%04d\<close>: it reads back as \<open>n\<close> and has at least four
  characters; from 0 to 9999 it is exactly four digits, and from 10000 on it is longer.
\<close>

theorem job_id_format:
  assumes cs: "isfile (os_files w) ''./common.sh''"
    and src: "source_common w ((os_environ w)(''JC_JOBWD'' \<mapsto> arg_cwd w)) = Inr dumped"
    and obs: "observes w n v"
  shows "environ (fst (submit_main w)) ''JC_JOBID'' = Some (fmt_04d n)
       \<and> filesys (fst (submit_main w)) (tmplog_path ''.'' (now_date w) (now_time w) (fmt_04d n))
           = Some (now_date w @ ''\<newline>'' @ now_time w @ ''\<newline>'' @ fmt_04d n @ ''\<newline>'')
       \<and> py_int (fmt_04d n) = Inr n
       \<and> 4 \<le> length (fmt_04d n)
       \<and> (0 \<le> n \<and> n < 10000 \<longrightarrow>
            length (fmt_04d n) = 4 \<and> (\<forall>c \<in> set (fmt_04d n). is_digit c))
       \<and> (10000 \<le> n \<longrightarrow> 4 < length (fmt_04d n))"
proof -
  have "environ (fst (submit_main w)) ''JC_JOBID'' = Some (fmt_04d n)"
    unfolding submit_main_jc [OF cs src obs] run_submission_environ
    by (simp add: jc_state_def Let_def)
  moreover have "filesys (fst (submit_main w)) (tmplog_path ''.'' (now_date w) (now_time w) (fmt_04d n))
           = Some (now_date w @ ''\<newline>'' @ now_time w @ ''\<newline>'' @ fmt_04d n @ ''\<newline>'')"
    unfolding submit_main_jc [OF cs src obs] run_submission_filesys
    by (simp add: jc_state_def Let_def tmplog_content_def)
  ultimately show ?thesis
    using py_int_fmt_04d [of n] length_fmt_04d_ge [of n] fmt_04d_four_digits [of n]
      fmt_04d_long [of n]
    by simp
qed

theorem job_id_format_witness:
  "environ (fst (submit_main (configured_world [''./.count'' \<mapsto> ''2'']))) ''JC_JOBID'' = Some ''0002''
   \<and> filesys (fst (submit_main (configured_world [''./.count'' \<mapsto> ''2''])))
        ''./.<euler-div-kernel-512_2020-02-20_14:27_0002>.tmp''
        = Some ''2020-02-20\<newline>14:27\<newline>0002\<newline>''
   \<and> (0::int) \<le> 2 \<and> (2::int) < 10000 \<and> length (fmt_04d 2) = 4
   \<and> (10000::int) \<le> 10000 \<and> 4 < length (fmt_04d 10000)"
proof -
  have obs: "observes (configured_world [''./.count'' \<mapsto> ''2'']) 2 ''3''"
    by (simp add: observes_def configured_world_simps(3) py_int_2 fmt_values)
  have obs': "observes (configured_world [''./.count'' \<mapsto> ''10000'']) 10000 ''10001''"
    by (simp add: observes_def configured_world_simps(3) py_int_10000 fmt_values)
  note a = job_id_format [OF configured_world_simps(1) configured_world_simps(2) obs]
  note b = job_id_format [OF configured_world_simps(1) configured_world_simps(2) obs']
  from a b show ?thesis
    by (simp add: configured_world_simps fmt_values tmplog_path_def)
qed

text \<open>C8 as stated fails at the counter value 10000: the job id has five digits.\<close>

theorem job_id_five_digits:
  "environ (fst (submit_main (configured_world [''./.count'' \<mapsto> ''10000'']))) ''JC_JOBID''
     = Some ''10000''
   \<and> length ''10000'' \<noteq> (4::nat)"
proof -
  have obs': "observes (configured_world [''./.count'' \<mapsto> ''10000'']) 10000 ''10001''"
    by (simp add: observes_def configured_world_simps(3) py_int_10000 fmt_values)
  show ?thesis
    unfolding submit_main_jc [OF configured_world_simps(1) configured_world_simps(2) obs']
      run_submission_environ
    by (simp add: jc_state_def Let_def fmt_values)
qed

section \<open>Properties of the Benchmark Aggregator\<close>

lemma append_file_other: "p \<noteq> f \<Longrightarrow> append_file fsys f txt p = fsys p"
  by (simp add: append_file_def)

lemma append_file_same: "fsys f = Some c \<Longrightarrow> append_file fsys f txt f = Some (c @ txt)"
  by (simp add: append_file_def)



text \<open>
  Over distinct paths and without an exception, the loop adds one row per path, in the
  order of the paths, each the mean row of what that file held at the start, and appends
  to each file the text of its own statistics; other files are untouched.
\<close>

lemma aggregate_distinct:
  assumes "distinct fl" and "aggregate lib fl fsys da = ((fsys', da'), Inr ())"
  shows "(\<exists>rows. da' = da @ rows \<and>
           list_all2 (\<lambda>f m. \<exists>c ds. fsys f = Some c \<and> analyse lib c = Inr (ds, m) \<and>
                               fsys' f = Some (c @ ds_to_string lib ds)) fl rows)
       \<and> (\<forall>p. p \<notin> set fl \<longrightarrow> fsys' p = fsys p)"
  using assms
proof (induction fl arbitrary: fsys da)
  case Nil
  then show ?case by simp
next
  case (Cons f fl)
  from Cons.prems(2) obtain cf where rf: "read_file fsys f = Inr cf"
    by (cases "read_file fsys f") auto
  then have ff: "fsys f = Some cf" by (auto simp: read_file_def split: option.splits)
  from Cons.prems(2) rf obtain ds m where an: "analyse lib cf = Inr (ds, m)"
    by (cases "analyse lib cf") auto
  let ?fsys1 = "append_file fsys f (ds_to_string lib ds)"
  from Cons.prems(2) rf an
  have run: "aggregate lib fl ?fsys1 (da @ [m]) = ((fsys', da'), Inr ())" by simp
  from Cons.prems(1) have dfl: "distinct fl" and fnot: "f \<notin> set fl" by auto
  from Cons.IH [OF dfl run] obtain rows where rows: "da' = (da @ [m]) @ rows"
    and all: "list_all2 (\<lambda>g m. \<exists>c ds. ?fsys1 g = Some c \<and> analyse lib c = Inr (ds, m) \<and>
                             fsys' g = Some (c @ ds_to_string lib ds)) fl rows"
    and frame: "\<forall>p. p \<notin> set fl \<longrightarrow> fsys' p = ?fsys1 p"
    by blast
  have "fsys' f = ?fsys1 f" using frame fnot by simp
  then have hd: "fsys' f = Some (cf @ ds_to_string lib ds)" using ff by (simp add: append_file_same)
  have tl: "list_all2 (\<lambda>g m. \<exists>c ds. fsys g = Some c \<and> analyse lib c = Inr (ds, m) \<and>
                             fsys' g = Some (c @ ds_to_string lib ds)) fl rows"
  proof (rule list.rel_mono_strong [OF all])
    fix g m'
    assume g: "g \<in> set fl"
      and "\<exists>c ds. ?fsys1 g = Some c \<and> analyse lib c = Inr (ds, m') \<and>
                  fsys' g = Some (c @ ds_to_string lib ds)"
    moreover from g fnot have "g \<noteq> f" by auto
    then have "?fsys1 g = fsys g" by (rule append_file_other)
    ultimately show "\<exists>c ds. fsys g = Some c \<and> analyse lib c = Inr (ds, m') \<and>
                  fsys' g = Some (c @ ds_to_string lib ds)"
      by simp
  qed
  from hd ff an tl
  have "list_all2 (\<lambda>g m. \<exists>c ds. fsys g = Some c \<and> analyse lib c = Inr (ds, m) \<and>
                             fsys' g = Some (c @ ds_to_string lib ds)) (f # fl) (m # rows)"
    by auto
  with rows have "\<exists>rows. da' = da @ rows \<and>
           list_all2 (\<lambda>f m. \<exists>c ds. fsys f = Some c \<and> analyse lib c = Inr (ds, m) \<and>
                               fsys' f = Some (c @ ds_to_string lib ds)) (f # fl) rows"
    by (intro exI [of _ "m # rows"]) simp
  moreover have "\<forall>p. p \<notin> set (f # fl) \<longrightarrow> fsys' p = fsys p"
    using frame by (simp add: append_file_other)
  ultimately show ?case by blast
qed

lemma sort_two: "sort [''run_b.dat'', ''run_a.dat''] = [''run_a.dat'', ''run_b.dat'']"
  "sort [''run_a.dat'', ''run_b.dat''] = [''run_a.dat'', ''run_b.dat'']"
  by simp_all

lemma analyse_row:
  "analyse one_row_pandas ''4 1.0 2.0 3.0 6.0\<newline>''
     = Inr ([''4'', ''1.0'', ''2.0'', ''3.0'', ''6.0''], [''4'', ''1.0'', ''2.0'', ''3.0'', ''6.0''])"
  by (simp add: analyse_def one_row_pandas_def split_on_def split_ws_def is_space_def)

lemma one_row_strings:
  "ds_to_string one_row_pandas [''4'', ''1.0'', ''2.0'', ''3.0'', ''6.0''] = ''mean 4 1.0 2.0 3.0 6.0''"
  "da_to_string one_row_pandas [[''4'', ''1.0'', ''2.0'', ''3.0'', ''6.0'']]
     = ''blocks t_init t_comp t_dump t_tot\<newline> 4 1.0 2.0 3.0 6.0''"
  "da_to_string one_row_pandas
     [[''4'', ''1.0'', ''2.0'', ''3.0'', ''6.0''], [''4'', ''1.0'', ''2.0'', ''3.0'', ''6.0'']]
     = ''blocks t_init t_comp t_dump t_tot\<newline> 4 1.0 2.0 3.0 6.0\<newline> 4 1.0 2.0 3.0 6.0''"
  by (simp_all add: one_row_pandas_def)

lemma post_two_runs:
  "post_main one_row_pandas \<lparr>args_files = [''run_b.dat'', ''run_a.dat''], args_out = ''summary.dat''\<rparr> two_runs
     = (two_runs(''run_a.dat'' \<mapsto> ''4 1.0 2.0 3.0 6.0\<newline>mean 4 1.0 2.0 3.0 6.0'',
                 ''run_b.dat'' \<mapsto> ''4 1.0 2.0 3.0 6.0\<newline>mean 4 1.0 2.0 3.0 6.0'',
                 ''summary.dat'' \<mapsto> ''blocks t_init t_comp t_dump t_tot\<newline> 4 1.0 2.0 3.0 6.0\<newline> 4 1.0 2.0 3.0 6.0''),
        Inr ())"
  by (simp add: post_main_def sort_two read_file_def two_runs_def analyse_row append_file_def
      one_row_strings)



text \<open>
  C7: two invocations whose \<open>--files\<close> are permutations of each other build the same
  summary table, row by row, and with the same output path they run identically; for
  distinct paths and a run without exception, the rows of the table are, in order, the
  mean rows of the paths in sorted order, and the output file holds that table.
\<close>

theorem summary_rows_in_sorted_order:
  assumes perm: "mset (args_files a) = mset (args_files b)"
  shows "summary_table lib a fsys = summary_table lib b fsys
       \<and> (args_out a = args_out b \<longrightarrow> post_main lib a fsys = post_main lib b fsys)
       \<and> (distinct (args_files a) \<and> snd (post_main lib a fsys) = Inr () \<longrightarrow>
            list_all2 (\<lambda>f m. \<exists>c ds. fsys f = Some c \<and> analyse lib c = Inr (ds, m))
              (sort (args_files a)) (summary_table lib a fsys)
            \<and> fst (post_main lib a fsys) (args_out a)
                = Some (da_to_string lib (summary_table lib a fsys)))"
proof -
  have srt: "sort (args_files a) = sort (args_files b)"
    using perm by (simp add: properties_for_sort)
  have tab: "summary_table lib a fsys = summary_table lib b fsys"
    unfolding summary_table_def srt by simp
  have same: "post_main lib a fsys = post_main lib b fsys" if out: "args_out a = args_out b"
    unfolding post_main_def srt out by simp
  have rows: "list_all2 (\<lambda>f m. \<exists>c ds. fsys f = Some c \<and> analyse lib c = Inr (ds, m))
              (sort (args_files a)) (summary_table lib a fsys)
            \<and> fst (post_main lib a fsys) (args_out a)
                = Some (da_to_string lib (summary_table lib a fsys))"
    if d: "distinct (args_files a)" and ok: "snd (post_main lib a fsys) = Inr ()"
  proof -
    obtain fsys' da r where ag: "aggregate lib (sort (args_files a)) fsys [] = ((fsys', da), r)"
      by (metis prod.exhaust)
    with ok have r: "r = Inr ()" by (cases r) (auto simp: post_main_def)
    from d have ds: "distinct (sort (args_files a))" by simp
    from aggregate_distinct [OF ds ag [unfolded r]]
    have "list_all2 (\<lambda>f m. \<exists>c ds. fsys f = Some c \<and> analyse lib c = Inr (ds, m) \<and>
                               fsys' f = Some (c @ ds_to_string lib ds)) (sort (args_files a)) da"
      by auto
    then have "list_all2 (\<lambda>f m. \<exists>c ds. fsys f = Some c \<and> analyse lib c = Inr (ds, m))
                 (sort (args_files a)) da"
      by (rule list_all2_mono) blast
    with ag r show ?thesis by (simp add: summary_table_def post_main_def)
  qed
  from same tab rows show ?thesis by blast
qed

theorem summary_rows_in_sorted_order_witness:
  "mset [''run_b.dat'', ''run_a.dat''] = mset [''run_a.dat'', ''run_b.dat'']
   \<and> post_main one_row_pandas
         \<lparr>args_files = [''run_b.dat'', ''run_a.dat''], args_out = ''summary.dat''\<rparr> two_runs
     = post_main one_row_pandas
         \<lparr>args_files = [''run_a.dat'', ''run_b.dat''], args_out = ''summary.dat''\<rparr> two_runs
   \<and> distinct [''run_b.dat'', ''run_a.dat'']
   \<and> snd (post_main one_row_pandas
         \<lparr>args_files = [''run_b.dat'', ''run_a.dat''], args_out = ''summary.dat''\<rparr> two_runs) = Inr ()
   \<and> list_all2 (\<lambda>f m. \<exists>c ds. two_runs f = Some c \<and> analyse one_row_pandas c = Inr (ds, m))
         [''run_a.dat'', ''run_b.dat'']
         (summary_table one_row_pandas
            \<lparr>args_files = [''run_b.dat'', ''run_a.dat''], args_out = ''summary.dat''\<rparr> two_runs)"
proof -
  let ?a = "\<lparr>args_files = [''run_b.dat'', ''run_a.dat''], args_out = ''summary.dat''\<rparr>"
  let ?b = "\<lparr>args_files = [''run_a.dat'', ''run_b.dat''], args_out = ''summary.dat''\<rparr>"
  have perm: "mset (args_files ?a) = mset (args_files ?b)" by simp
  have out: "args_out ?a = args_out ?b" by simp
  have d: "distinct (args_files ?a)" by simp
  have ok: "snd (post_main one_row_pandas ?a two_runs) = Inr ()"
    by (simp add: post_two_runs)
  note t = summary_rows_in_sorted_order [OF perm, of one_row_pandas two_runs]
  from t out have same: "post_main one_row_pandas ?a two_runs = post_main one_row_pandas ?b two_runs"
    by blast
  from t d ok
  have "list_all2 (\<lambda>f m. \<exists>c ds. two_runs f = Some c \<and> analyse one_row_pandas c = Inr (ds, m))
          (sort (args_files ?a)) (summary_table one_row_pandas ?a two_runs)"
    by blast
  then have rows: "list_all2 (\<lambda>f m. \<exists>c ds. two_runs f = Some c \<and> analyse one_row_pandas c = Inr (ds, m))
          [''run_a.dat'', ''run_b.dat''] (summary_table one_row_pandas ?a two_runs)"
    by (simp only: post_args.simps sort_two)
  from perm same d ok rows show ?thesis
    by (simp only: post_args.simps)
qed




end
